theory Spec2Isabelle
  imports Complex_Main "HOL-Library.Char_ord" "HOL-Library.List_Lexorder"
begin

section \<open>The relational store\<close>

text \<open>
  The four tables of \<^verbatim>\<open>LicorDB.create_tables\<close> (Inventarios.py). A table is the list of
  its rows in rowid order. Columns keep the source's names behind a one-letter prefix for
  the table. SQLite \<^verbatim>\<open>REAL\<close> columns and Python floats are modelled as exact reals:
  rounding, infinities and NaN are not part of the model. Nullable columns are options.
  \<^verbatim>\<open>fecha\<close> (\<^verbatim>\<open>DEFAULT CURRENT_TIMESTAMP\<close>) is a number of seconds.
\<close>

record local_row =
  l_id :: int
  l_nombre :: string
  l_direccion :: "string option"
  l_telefono :: "string option"
  l_activo :: int

record usuario_row =
  u_id :: int
  u_username :: string
  u_password :: string
  u_nombre :: string
  u_rol :: string
  u_local_id :: "int option"
  u_activo :: int

record producto_row =
  p_id :: int
  p_local_id :: int
  p_nombre :: string
  p_marca :: string
  p_tipo :: string
  p_densidad :: real
  p_capacidad_ml :: real
  p_peso_envase :: real
  p_activo :: int
  p_botellas_completas :: int
  p_minimo_inventario :: real
  p_fecha_creacion :: nat

text \<open>
  The text of \<^verbatim>\<open>notas\<close>. \<^verbatim>\<open>registrar_peso\<close> writes
  \<^verbatim>\<open>f"Registro manual. Peso total: {peso_total}g"\<close>; the printed form of the float is
  kept as the number itself.
\<close>

datatype nota = Texto string | RegistroManual real

record movimiento_row =
  m_id :: int
  m_producto_id :: int
  m_user_id :: int
  m_tipo :: string
  m_cantidad_ml :: real
  m_peso_bruto :: "real option"
  m_notas :: "nota option"
  m_fecha :: nat

text \<open>
  \<^verbatim>\<open>seq_movimientos\<close> is the \<^verbatim>\<open>AUTOINCREMENT\<close> counter of \<^verbatim>\<open>movimientos\<close>: the
  largest rowid handed out so far.
\<close>

record db =
  locales :: "local_row list"
  usuarios :: "usuario_row list"
  productos :: "producto_row list"
  movimientos :: "movimiento_row list"
  seq_movimientos :: int

text \<open>
  \<^verbatim>\<open>INSERT INTO movimientos (producto_id, user_id, tipo, cantidad_ml, peso_bruto, notas)\<close>:
  the id comes from the counter and \<^verbatim>\<open>fecha\<close> from the clock (\<open>ahora\<close>). Foreign keys are
  declared but never switched on, so no reference is checked.
\<close>

definition insert_movimiento ::
  "db \<Rightarrow> nat \<Rightarrow> int \<Rightarrow> int \<Rightarrow> string \<Rightarrow> real \<Rightarrow> real option \<Rightarrow> nota option \<Rightarrow> db"
where
  "insert_movimiento d ahora producto_id user_id tipo cantidad_ml peso_bruto notas =
     d\<lparr>movimientos := movimientos d @
          [\<lparr>m_id = seq_movimientos d + 1, m_producto_id = producto_id,
            m_user_id = user_id, m_tipo = tipo, m_cantidad_ml = cantidad_ml,
            m_peso_bruto = peso_bruto, m_notas = notas, m_fecha = ahora\<rparr>],
       seq_movimientos := seq_movimientos d + 1\<rparr>"

text \<open>SQL \<^verbatim>\<open>SUM\<close>: \<^verbatim>\<open>NULL\<close> over no rows, the sum otherwise.\<close>

definition sql_sum :: "real list \<Rightarrow> real option" where
  "sql_sum xs = (if xs = [] then None else Some (sum_list xs))"

text \<open>\<^verbatim>\<open>cursor.fetchone()\<close>: the first row of the result, or \<^verbatim>\<open>None\<close>.\<close>

definition fetchone :: "'a list \<Rightarrow> 'a option" where
  "fetchone rows = (case rows of [] \<Rightarrow> None | r # _ \<Rightarrow> Some r)"

section \<open>The desktop application (InventarioApp)\<close>

text \<open>
  The logged-in user: \<^verbatim>\<open>self.user_id\<close>, \<^verbatim>\<open>self.user_role\<close> and \<^verbatim>\<open>self.local_id\<close>, the
  location chosen in the login window.
\<close>

record sesion =
  s_user_id :: int
  s_user_role :: string
  s_local_id :: int

text \<open>
  A row of \<^verbatim>\<open>tree_inventario\<close>:
  \<^verbatim>\<open>values=(nombre, marca, tipo, disponible_text, botellas, estado_text)\<close> with the tag
  \<^verbatim>\<open>estado.lower()\<close>. Of \<^verbatim>\<open>disponible_text\<close> the model keeps the level that is printed
  (\<open>None\<close> for "No registrado"), and it keeps \<^verbatim>\<open>estado\<close> itself rather than its lower case.
\<close>

record fila_inventario =
  f_nombre :: string
  f_marca :: string
  f_tipo :: string
  f_disponible :: "real option"
  f_botellas :: int
  f_estado_text :: string
  f_estado :: string

text \<open>
  What an operation leaves on the screen: the message box it shows, the uncaught Python
  exception, or \<open>Cancelado\<close> for the silent \<^verbatim>\<open>return\<close> after a declined
  \<^verbatim>\<open>askyesno\<close>. \<open>RegistroExitoso\<close> carries the volume and the kind that the message prints.
\<close>

datatype aviso =
    SeleccioneProducto
  | PesoInvalido
  | ProductoNoEncontrado
  | SinBotellas
  | SeleccioneLocal
  | LocalConProductos
  | LocalConUsuarios
  | Cancelado
  | ZeroDivisionError
  | TypeError
  | RegistroExitoso real string
  | BotellaAgregada string
  | BotellaRetirada string
  | LocalEliminado

subsection \<open>actualizar_inventario\<close>

text \<open>
  The query of \<^verbatim>\<open>actualizar_inventario\<close>: every product for an admin, the products of
  \<^verbatim>\<open>self.local_id\<close> otherwise, \<^verbatim>\<open>ORDER BY p.nombre\<close>; each with
  \<^verbatim>\<open>(SELECT SUM(cantidad_ml) FROM movimientos WHERE producto_id = p.id) as total_ml\<close>.
\<close>

definition total_ml :: "db \<Rightarrow> int \<Rightarrow> real option" where
  "total_ml d pid =
     sql_sum (map m_cantidad_ml (filter (\<lambda>m. m_producto_id m = pid) (movimientos d)))"

definition consulta_inventario :: "db \<Rightarrow> sesion \<Rightarrow> (producto_row \<times> real option) list" where
  "consulta_inventario d s =
     map (\<lambda>p. (p, total_ml d (p_id p)))
       (sort_key p_nombre
         (if s_user_role s = ''admin'' then productos d
          else filter (\<lambda>p. p_local_id p = s_local_id s) (productos d)))"

text \<open>\<^verbatim>\<open>SELECT capacidad_ml FROM productos WHERE id = ?\<close>, read with \<^verbatim>\<open>fetch_one\<close>.\<close>

definition fetch_capacidad :: "db \<Rightarrow> int \<Rightarrow> real option" where
  "fetch_capacidad d pid =
     fetchone (map p_capacidad_ml (filter (\<lambda>p. p_id p = pid) (productos d)))"

text \<open>
  The body of the loop over the products. \<^verbatim>\<open>fetch_one(...)[0]\<close> on no row is a
  \<^verbatim>\<open>TypeError\<close>. \<^verbatim>\<open>total_ml or 0\<close> leaves every number as it is.
\<close>

definition fila :: "db \<Rightarrow> producto_row \<times> real option \<Rightarrow> aviso + fila_inventario" where
  "fila d fila_sql =
     (let p = fst fila_sql;
          estado_text = (if p_activo p \<noteq> 0 then ''Activo'' else ''Inactivo'') in
      case snd fila_sql of
        None \<Rightarrow>
          Inr \<lparr>f_nombre = p_nombre p, f_marca = p_marca p, f_tipo = p_tipo p,
               f_disponible = None, f_botellas = p_botellas_completas p,
               f_estado_text = estado_text, f_estado = ''Sin datos''\<rparr>
      | Some tml \<Rightarrow>
          (case fetch_capacidad d (p_id p) of
             None \<Rightarrow> Inl TypeError
           | Some capacidad \<Rightarrow>
               Inr \<lparr>f_nombre = p_nombre p, f_marca = p_marca p, f_tipo = p_tipo p,
                    f_disponible = Some tml, f_botellas = p_botellas_completas p,
                    f_estado_text = estado_text,
                    f_estado = (if tml < capacidad * (2 / 10) then ''Bajo'' else ''OK'')\<rparr>))"

text \<open>
  The loop: the rows in order, or the first exception. The three counters of the summary
  and the chart drawn afterwards are not modelled.
\<close>

fun filas :: "db \<Rightarrow> (producto_row \<times> real option) list \<Rightarrow> aviso + fila_inventario list" where
  "filas d [] = Inr []"
| "filas d (fila_sql # rest) =
     (case fila d fila_sql of
        Inl e \<Rightarrow> Inl e
      | Inr f \<Rightarrow> (case filas d rest of Inl e \<Rightarrow> Inl e | Inr fs \<Rightarrow> Inr (f # fs)))"

definition actualizar_inventario :: "db \<Rightarrow> sesion \<Rightarrow> aviso + fila_inventario list" where
  "actualizar_inventario d s = filas d (consulta_inventario d s)"

subsection \<open>registrar_peso\<close>

text \<open>
  \<^verbatim>\<open>SELECT id, densidad, peso_envase, capacidad_ml FROM productos WHERE nombre = ?\<close> (and the
  same lookup with fewer columns in the bottle operations), read with \<^verbatim>\<open>fetch_one\<close>: the
  first product carrying the name, in any location.
\<close>

definition fetch_producto :: "db \<Rightarrow> string \<Rightarrow> producto_row option" where
  "fetch_producto d nombre = fetchone (filter (\<lambda>p. p_nombre p = nombre) (productos d))"

text \<open>
  \<^verbatim>\<open>SELECT cantidad_ml FROM movimientos WHERE producto_id = ? ORDER BY fecha DESC LIMIT 1\<close>.
  Among rows of equal \<^verbatim>\<open>fecha\<close> SQL leaves the order open; the sort here keeps them in
  table order.
\<close>

definition ultimo_query :: "db \<Rightarrow> int \<Rightarrow> real option" where
  "ultimo_query d pid =
     fetchone (map m_cantidad_ml
       (sort_key (\<lambda>m. - int (m_fecha m))
         (filter (\<lambda>m. m_producto_id m = pid) (movimientos d))))"

text \<open>The insertion that ends \<^verbatim>\<open>registrar_peso\<close>, with the message that follows it.\<close>

definition insertar_movimiento ::
  "db \<Rightarrow> sesion \<Rightarrow> nat \<Rightarrow> int \<Rightarrow> string \<Rightarrow> real \<Rightarrow> real \<Rightarrow> aviso \<times> db"
where
  \<comment> \<open>the tail of \<^verbatim>\<open>registrar_peso\<close> from \<^verbatim>\<open># Insertar movimiento\<close> on\<close>
  "insertar_movimiento d s ahora id_prod tipo volumen_ml peso_total =
     (RegistroExitoso volumen_ml tipo,
      insert_movimiento d ahora id_prod (s_user_id s) tipo volumen_ml
        (Some peso_total) (Some (RegistroManual peso_total)))"

text \<open>
  The arguments after the store and the session: the clock, the selected row of
  \<^verbatim>\<open>tree_inventario\<close> (if any), the content of \<^verbatim>\<open>entry_peso\<close> as \<^verbatim>\<open>float\<close> reads it
  (\<open>None\<close> when it raises \<^verbatim>\<open>ValueError\<close>), and the answer the user gives if
  \<^verbatim>\<open>askyesno\<close> is shown. Dividing by a zero density raises.
\<close>

definition registrar_peso ::
  "db \<Rightarrow> sesion \<Rightarrow> nat \<Rightarrow> fila_inventario option \<Rightarrow> real option \<Rightarrow> bool \<Rightarrow> aviso \<times> db"
where
  "registrar_peso d s ahora seleccion entry_peso askyesno =
     (case seleccion of
        None \<Rightarrow> (SeleccioneProducto, d)
      | Some item \<Rightarrow>
     (case entry_peso of
        None \<Rightarrow> (PesoInvalido, d)
      | Some peso_total \<Rightarrow>
     (case fetch_producto d (f_nombre item) of
        None \<Rightarrow> (ProductoNoEncontrado, d)
      | Some producto \<Rightarrow>
          let id_prod = p_id producto;
              densidad = p_densidad producto;
              peso_envase = p_peso_envase producto;
              peso_licor = peso_total - peso_envase in
          if densidad = 0 then (ZeroDivisionError, d)
          else
            let volumen_ml = peso_licor / densidad in
            if volumen_ml < 0 then
              (if \<not> askyesno then (Cancelado, d)
               else insertar_movimiento d s ahora id_prod ''ajuste'' volumen_ml peso_total)
            else
              (case ultimo_query d id_prod of
                 Some ultimo_ml \<Rightarrow>
                   let diferencia = volumen_ml - ultimo_ml in
                   insertar_movimiento d s ahora id_prod
                     (if diferencia > 0 then ''entrada'' else ''salida'') volumen_ml peso_total
               | None \<Rightarrow>
                   insertar_movimiento d s ahora id_prod ''entrada'' volumen_ml peso_total))))"

subsection \<open>agregar_botella_completa, quitar_botella_completa\<close>

text \<open>\<^verbatim>\<open>UPDATE productos SET botellas_completas = botellas_completas + k WHERE id = ?\<close>.\<close>

definition update_botellas :: "db \<Rightarrow> int \<Rightarrow> int \<Rightarrow> db" where
  "update_botellas d id_prod k =
     d\<lparr>productos :=
         map (\<lambda>p. if p_id p = id_prod
                   then p\<lparr>p_botellas_completas := p_botellas_completas p + k\<rparr> else p)
           (productos d)\<rparr>"

definition agregar_botella_completa ::
  "db \<Rightarrow> sesion \<Rightarrow> nat \<Rightarrow> fila_inventario option \<Rightarrow> aviso \<times> db"
where
  "agregar_botella_completa d s ahora seleccion =
     (case seleccion of
        None \<Rightarrow> (SeleccioneProducto, d)
      | Some item \<Rightarrow>
     (case fetch_producto d (f_nombre item) of
        None \<Rightarrow> (ProductoNoEncontrado, d)
      | Some producto \<Rightarrow>
          let id_prod = p_id producto;
              capacidad = p_capacidad_ml producto;
              d1 = update_botellas d id_prod 1;
              d2 = insert_movimiento d1 ahora id_prod (s_user_id s) ''entrada'' capacidad
                     None (Some (Texto ''Botella completa agregada''))
          in (BotellaAgregada (f_nombre item), d2)))"

text \<open>The count that is tested is the one shown in the selected row, \<^verbatim>\<open>item['values'][4]\<close>.\<close>

definition quitar_botella_completa ::
  "db \<Rightarrow> sesion \<Rightarrow> nat \<Rightarrow> fila_inventario option \<Rightarrow> aviso \<times> db"
where
  "quitar_botella_completa d s ahora seleccion =
     (case seleccion of
        None \<Rightarrow> (SeleccioneProducto, d)
      | Some item \<Rightarrow>
          if f_botellas item \<le> 0 then (SinBotellas, d)
          else
     (case fetch_producto d (f_nombre item) of
        None \<Rightarrow> (ProductoNoEncontrado, d)
      | Some producto \<Rightarrow>
          let id_prod = p_id producto;
              capacidad = p_capacidad_ml producto;
              d1 = update_botellas d id_prod (- 1);
              d2 = insert_movimiento d1 ahora id_prod (s_user_id s) ''salida'' capacidad
                     None (Some (Texto ''Botella completa retirada''))
          in (BotellaRetirada (f_nombre item), d2)))"

subsection \<open>eliminar_local\<close>

text \<open>
  The selection is the id in the selected row of \<^verbatim>\<open>tree_locales\<close> (the name in that row
  only goes into the question). \<^verbatim>\<open>SELECT COUNT(*) ... WHERE local_id = ?\<close> on each of
  \<^verbatim>\<open>productos\<close> and \<^verbatim>\<open>usuarios\<close>, the question, then
  \<^verbatim>\<open>DELETE FROM locales WHERE id = ?\<close>.
\<close>

definition eliminar_local :: "db \<Rightarrow> int option \<Rightarrow> bool \<Rightarrow> aviso \<times> db" where
  "eliminar_local d seleccion askyesno =
     (case seleccion of
        None \<Rightarrow> (SeleccioneLocal, d)
      | Some id_local \<Rightarrow>
          let n_productos = length (filter (\<lambda>p. p_local_id p = id_local) (productos d)) in
          if n_productos > 0 then (LocalConProductos, d)
          else
            let n_usuarios =
                  length (filter (\<lambda>u. u_local_id u = Some id_local) (usuarios d)) in
            if n_usuarios > 0 then (LocalConUsuarios, d)
            else if \<not> askyesno then (Cancelado, d)
            else (LocalEliminado,
                  d\<lparr>locales := filter (\<lambda>l. l_id l \<noteq> id_local) (locales d)\<rparr>))"

section \<open>The network endpoint (API REST.py)\<close>

text \<open>
  The endpoint opens the database file of the same name with \<^verbatim>\<open>sqlite3.connect\<close> for
  each request; the model lets it work on the store of the desktop application, with the
  tables as \<^verbatim>\<open>create_tables\<close> declares them.

  A key of the JSON body: missing, \<^verbatim>\<open>null\<close>, or a value of the column's type. Values of
  another JSON type are outside the model.
\<close>

datatype 'a json_field = Absent | Null | Val 'a

datatype excepcion = KeyError string | IntegrityError

text \<open>
  What the client gets: a status code with a body, or the uncaught exception (which the
  framework turns into a 500).
\<close>

datatype cuerpo =
    Status string
  | ErrorMsg string
  | Usuario int string string "int option"
  | Productos "(producto_row \<times> real) list"

datatype respuesta = Respuesta nat cuerpo | Excepcion excepcion

text \<open>\<^verbatim>\<open>data[key]\<close> and \<^verbatim>\<open>data.get(key, default)\<close>; JSON \<^verbatim>\<open>null\<close> is \<^verbatim>\<open>None\<close>.\<close>

definition subscript :: "string \<Rightarrow> 'a json_field \<Rightarrow> excepcion + 'a option" where
  "subscript key v =
     (case v of Absent \<Rightarrow> Inl (KeyError key) | Null \<Rightarrow> Inr None | Val x \<Rightarrow> Inr (Some x))"

definition get_default :: "'a json_field \<Rightarrow> 'a option \<Rightarrow> 'a option" where
  "get_default v dflt =
     (case v of Absent \<Rightarrow> dflt | Null \<Rightarrow> None | Val x \<Rightarrow> Some x)"

subsection \<open>GET /api/productos\<close>

text \<open>
  \<^verbatim>\<open>COALESCE((SELECT SUM(CASE WHEN tipo = 'entrada' THEN cantidad_ml ELSE -cantidad_ml END)
  FROM movimientos WHERE producto_id = p.id), 0) as total_ml\<close>
\<close>

definition api_total_ml :: "db \<Rightarrow> int \<Rightarrow> real" where
  "api_total_ml d pid =
     (case sql_sum
             (map (\<lambda>m. if m_tipo m = ''entrada'' then m_cantidad_ml m else - m_cantidad_ml m)
                (filter (\<lambda>m. m_producto_id m = pid) (movimientos d))) of
        None \<Rightarrow> 0
      | Some x \<Rightarrow> x)"

text \<open>
  The argument is the \<^verbatim>\<open>local_id\<close> of the query string as a number; \<open>None\<close> when it is
  missing or empty.
\<close>

definition get_productos :: "db \<Rightarrow> int option \<Rightarrow> respuesta" where
  "get_productos d local_id_arg =
     Respuesta 200 (Productos
       (map (\<lambda>p. (p, api_total_ml d (p_id p)))
         (sort_key p_nombre
           (case local_id_arg of
              Some l \<Rightarrow> filter (\<lambda>p. p_local_id p = l \<and> p_activo p = 1) (productos d)
            | None \<Rightarrow> filter (\<lambda>p. p_activo p = 1) (productos d)))))"

subsection \<open>POST /api/movimientos\<close>

record movimiento_json =
  j_producto_id :: "int json_field"
  j_user_id :: "int json_field"
  j_tipo :: "string json_field"
  j_cantidad_ml :: "real json_field"
  j_peso_bruto :: "real json_field"
  j_notas :: "string json_field"

text \<open>
  The \<^verbatim>\<open>INSERT\<close> with parameters that may be \<^verbatim>\<open>NULL\<close>: \<^verbatim>\<open>producto_id\<close>,
  \<^verbatim>\<open>user_id\<close>, \<^verbatim>\<open>tipo\<close> and \<^verbatim>\<open>cantidad_ml\<close> are declared \<^verbatim>\<open>NOT NULL\<close>.
\<close>

definition execute_insert ::
  "db \<Rightarrow> nat \<Rightarrow> int option \<Rightarrow> int option \<Rightarrow> string option \<Rightarrow> real option \<Rightarrow>
   real option \<Rightarrow> nota option \<Rightarrow> excepcion + db"
where
  "execute_insert d ahora producto_id user_id tipo cantidad_ml peso_bruto notas =
     (case (producto_id, user_id, tipo, cantidad_ml) of
        (Some p, Some u, Some t, Some c) \<Rightarrow>
          Inr (insert_movimiento d ahora p u t c peso_bruto notas)
      | _ \<Rightarrow> Inl IntegrityError)"

definition movimientos_POST :: "db \<Rightarrow> nat \<Rightarrow> movimiento_json \<Rightarrow> respuesta \<times> db" where
  "movimientos_POST d ahora data =
     (case subscript ''producto_id'' (j_producto_id data) of
        Inl e \<Rightarrow> (Excepcion e, d)
      | Inr producto_id \<Rightarrow>
     (case subscript ''user_id'' (j_user_id data) of
        Inl e \<Rightarrow> (Excepcion e, d)
      | Inr user_id \<Rightarrow>
     (case subscript ''tipo'' (j_tipo data) of
        Inl e \<Rightarrow> (Excepcion e, d)
      | Inr tipo \<Rightarrow>
     (case subscript ''cantidad_ml'' (j_cantidad_ml data) of
        Inl e \<Rightarrow> (Excepcion e, d)
      | Inr cantidad_ml \<Rightarrow>
     (case execute_insert d ahora producto_id user_id tipo cantidad_ml
             (get_default (j_peso_bruto data) None)
             (map_option Texto (get_default (j_notas data) (Some []))) of
        Inl e \<Rightarrow> (Excepcion e, d)
      | Inr d' \<Rightarrow> (Respuesta 201 (Status ''success''), d'))))))"

subsection \<open>POST /api/login\<close>

record login_json =
  j_username :: "string json_field"
  j_password :: "string json_field"

text \<open>
  \<^verbatim>\<open>SELECT id, nombre, rol, local_id FROM usuarios WHERE username = ? AND password = ? AND
  activo = 1\<close>: a comparison with \<^verbatim>\<open>NULL\<close> is never true. The letter after \<^verbatim>\<open>inv\<close> in
  the message is a-acute, code point 225.
\<close>

definition credenciales_invalidas :: string where
  "credenciales_invalidas = ''Credenciales inv'' @ [char_of (225 :: nat)] @ ''lidas''"

definition login :: "db \<Rightarrow> login_json \<Rightarrow> respuesta" where
  "login d data =
     (case subscript ''username'' (j_username data) of
        Inl e \<Rightarrow> Excepcion e
      | Inr username \<Rightarrow>
     (case subscript ''password'' (j_password data) of
        Inl e \<Rightarrow> Excepcion e
      | Inr password \<Rightarrow>
     (case fetchone
             (filter (\<lambda>u. Some (u_username u) = username \<and> Some (u_password u) = password
                          \<and> u_activo u = 1) (usuarios d)) of
        Some usuario \<Rightarrow>
          Respuesta 200
            (Usuario (u_id usuario) (u_nombre usuario) (u_rol usuario) (u_local_id usuario))
      | None \<Rightarrow> Respuesta 401 (ErrorMsg credenciales_invalidas))))"

section \<open>The level as the specification words it\<close>

text \<open>
  The signed sum over the movements of a product: the quantity of an \<^verbatim>\<open>entrada\<close> added,
  of a \<^verbatim>\<open>salida\<close> subtracted, of an \<^verbatim>\<open>ajuste\<close> added as it is. This definition follows the
  specification, not the code.
\<close>

definition spec_signed :: "movimiento_row \<Rightarrow> real" where
  "spec_signed m =
     (if m_tipo m = ''entrada'' then m_cantidad_ml m
      else if m_tipo m = ''salida'' then - m_cantidad_ml m
      else if m_tipo m = ''ajuste'' then m_cantidad_ml m
      else 0)"

definition spec_current_level :: "db \<Rightarrow> int \<Rightarrow> real" where
  "spec_current_level d pid =
     sum_list (map spec_signed (filter (\<lambda>m. m_producto_id m = pid) (movimientos d)))"

section \<open>Example stores\<close>

text \<open>
  Two locations, an administrator and an employee who has been deactivated, and three
  products. Two of the products carry the same name in different locations: neither the
  schema nor \<^verbatim>\<open>guardar_producto\<close> asks names to be unique.
\<close>

definition ej_locales :: "local_row list" where
  "ej_locales =
     [\<lparr>l_id = 1, l_nombre = ''Local Principal'', l_direccion = None, l_telefono = None,
       l_activo = 1\<rparr>,
      \<lparr>l_id = 2, l_nombre = ''Terraza'', l_direccion = None, l_telefono = None,
       l_activo = 1\<rparr>,
      \<lparr>l_id = 3, l_nombre = ''Bodega'', l_direccion = None, l_telefono = None,
       l_activo = 0\<rparr>]"

definition ej_usuarios :: "usuario_row list" where
  "ej_usuarios =
     [\<lparr>u_id = 1, u_username = ''admin'', u_password = ''admin123'',
       u_nombre = ''Administrador'', u_rol = ''admin'', u_local_id = Some 1, u_activo = 1\<rparr>,
      \<lparr>u_id = 2, u_username = ''ana'', u_password = ''secreto'',
       u_nombre = ''Ana'', u_rol = ''empleado'', u_local_id = Some 2, u_activo = 0\<rparr>]"

definition ej_whisky :: producto_row where
  "ej_whisky =
     \<lparr>p_id = 1, p_local_id = 1, p_nombre = ''Whisky'', p_marca = ''Etiqueta'',
      p_tipo = ''Whisky'', p_densidad = 94 / 100, p_capacidad_ml = 1000,
      p_peso_envase = 300, p_activo = 1, p_botellas_completas = 0,
      p_minimo_inventario = 1 / 2, p_fecha_creacion = 0\<rparr>"

definition ej_ron_principal :: producto_row where
  "ej_ron_principal =
     \<lparr>p_id = 2, p_local_id = 1, p_nombre = ''Ron'', p_marca = ''Blanco'',
      p_tipo = ''Ron'', p_densidad = 94 / 100, p_capacidad_ml = 750,
      p_peso_envase = 350, p_activo = 1, p_botellas_completas = 0,
      p_minimo_inventario = 2 / 10, p_fecha_creacion = 0\<rparr>"

definition ej_ron_terraza :: producto_row where
  "ej_ron_terraza =
     \<lparr>p_id = 3, p_local_id = 2, p_nombre = ''Ron'', p_marca = ''Dorado'',
      p_tipo = ''Ron'', p_densidad = 95 / 100, p_capacidad_ml = 1000,
      p_peso_envase = 400, p_activo = 1, p_botellas_completas = 0,
      p_minimo_inventario = 2 / 10, p_fecha_creacion = 0\<rparr>"

definition ej_db :: db where
  "ej_db =
     \<lparr>locales = ej_locales, usuarios = ej_usuarios,
      productos = [ej_whisky, ej_ron_principal, ej_ron_terraza],
      movimientos = [], seq_movimientos = 0\<rparr>"

definition ej_sesion :: sesion where
  "ej_sesion = \<lparr>s_user_id = 1, s_user_role = ''admin'', s_local_id = 1\<rparr>"

text \<open>The row of \<^verbatim>\<open>tree_inventario\<close> that shows a product which has no movement yet.\<close>

definition item_sin_datos :: "producto_row \<Rightarrow> fila_inventario" where
  "item_sin_datos p =
     \<lparr>f_nombre = p_nombre p, f_marca = p_marca p, f_tipo = p_tipo p, f_disponible = None,
      f_botellas = p_botellas_completas p,
      f_estado_text = (if p_activo p \<noteq> 0 then ''Activo'' else ''Inactivo''),
      f_estado = ''Sin datos''\<rparr>"

text \<open>
  The row the user selects: \<^verbatim>\<open>tree_inventario.selection()\<close> and
  \<^verbatim>\<open>tree_inventario.item(seleccion[0])\<close> on the list as \<^verbatim>\<open>actualizar_inventario\<close> last
  filled it, for a click on the row at position \<open>i\<close> (from 0).
\<close>

definition seleccion_fila :: "db \<Rightarrow> sesion \<Rightarrow> nat \<Rightarrow> fila_inventario option" where
  "seleccion_fila d s i =
     (case actualizar_inventario d s of
        Inl e \<Rightarrow> None
      | Inr fs \<Rightarrow> if i < length fs then Some (fs ! i) else None)"

text \<open>
  The administrator's list shows Ron (Blanco), Ron (Dorado), Whisky, in this order. The
  stores below are reached from \<open>ej_db\<close> through the application: a weight of 488 g
  registered for the whisky; a weight of 582 g registered for it instead; a complete
  bottle of whisky added; that bottle removed again.
\<close>

definition ej_db_lectura :: db where
  "ej_db_lectura =
     snd (registrar_peso ej_db ej_sesion 5 (seleccion_fila ej_db ej_sesion 2) (Some 488) False)"


definition ej_db_botella :: db where
  "ej_db_botella =
     snd (agregar_botella_completa ej_db ej_sesion 10 (seleccion_fila ej_db ej_sesion 2))"

definition ej_db_retirada :: db where
  "ej_db_retirada =
     snd (quitar_botella_completa ej_db_botella ej_sesion 20
            (seleccion_fila ej_db_botella ej_sesion 2))"

lemmas ej_defs =
  ej_db_def ej_sesion_def ej_locales_def ej_usuarios_def ej_whisky_def
  ej_ron_principal_def ej_ron_terraza_def item_sin_datos_def

lemmas app_defs =
  actualizar_inventario_def consulta_inventario_def fila_def total_ml_def sql_sum_def
  fetch_capacidad_def fetchone_def fetch_producto_def ultimo_query_def
  registrar_peso_def insertar_movimiento_def insert_movimiento_def update_botellas_def
  agregar_botella_completa_def quitar_botella_completa_def seleccion_fila_def

section \<open>Queries\<close>

lemma fetchone_eq_None: "fetchone xs = None \<longleftrightarrow> xs = []"
  by (cases xs) (simp_all add: fetchone_def)

lemma fetchone_filter_None:
  "fetchone (filter P xs) = None \<longleftrightarrow> (\<forall>x\<in>set xs. \<not> P x)"
  by (simp add: fetchone_eq_None filter_empty_conv)

lemma fetchone_filter_Some:
  assumes "fetchone (filter P xs) = Some x"
  shows "x \<in> set xs \<and> P x"
proof -
  from assms obtain rest where "filter P xs = x # rest"
    by (cases "filter P xs") (simp_all add: fetchone_def)
  then have "x \<in> set (filter P xs)" by simp
  then show ?thesis by simp
qed



text \<open>
  What the last-reading query returns is the quantity of a movement of the product, one
  that no other movement of the product is later than.
\<close>

lemma ultimo_query_Some:
  assumes "ultimo_query d pid = Some u"
  shows "\<exists>m\<in>set (movimientos d). m_producto_id m = pid \<and> m_cantidad_ml m = u
           \<and> (\<forall>m'\<in>set (movimientos d). m_producto_id m' = pid \<longrightarrow> m_fecha m' \<le> m_fecha m)"
proof -
  let ?k = "\<lambda>m. - int (m_fecha m)"
  let ?ms = "filter (\<lambda>m. m_producto_id m = pid) (movimientos d)"
  let ?rows = "sort_key ?k ?ms"
  from assms obtain m rest where rows: "?rows = m # rest" and u: "m_cantidad_ml m = u"
    by (cases ?rows) (auto simp: ultimo_query_def fetchone_def)
  from rows have "m \<in> set ?rows" by simp
  then have m: "m \<in> set (movimientos d)" "m_producto_id m = pid" by simp_all
  have "sorted (map ?k ?rows)" by (rule sorted_sort_key)
  with rows have first: "\<forall>x\<in>set rest. ?k m \<le> ?k x" by simp
  have later: "m_fecha m' \<le> m_fecha m"
    if "m' \<in> set (movimientos d)" "m_producto_id m' = pid" for m'
  proof -
    from that have "m' \<in> set ?rows" by simp
    with rows have "m' = m \<or> m' \<in> set rest" by simp
    with first show ?thesis by auto
  qed
  from m u later show ?thesis by blast
qed

section \<open>Weight registration\<close>



text \<open>An insertion appends one row that carries the values given.\<close>

lemma insert_movimiento_row:
  "\<exists>m. insert_movimiento d ahora pid uid t c pb n
          = d\<lparr>movimientos := movimientos d @ [m], seq_movimientos := seq_movimientos d + 1\<rparr>
       \<and> m_id m = seq_movimientos d + 1 \<and> m_producto_id m = pid \<and> m_user_id m = uid
       \<and> m_tipo m = t \<and> m_cantidad_ml m = c \<and> m_peso_bruto m = pb \<and> m_notas m = n
       \<and> m_fecha m = ahora"
  unfolding insert_movimiento_def
  by (rule exI [of _ "\<lparr>m_id = seq_movimientos d + 1, m_producto_id = pid, m_user_id = uid,
        m_tipo = t, m_cantidad_ml = c, m_peso_bruto = pb, m_notas = n, m_fecha = ahora\<rparr>"])
     simp

text \<open>The registration, once the product is found and its density is not zero.\<close>

lemma registrar_peso_found:
  assumes "fetch_producto d (f_nombre item) = Some p"
      and "p_densidad p \<noteq> 0"
      and "v = (peso_total - p_peso_envase p) / p_densidad p"
  shows "registrar_peso d s ahora (Some item) (Some peso_total) ask =
           (if v < 0 then
              (if ask then
                 (RegistroExitoso v ''ajuste'',
                  insert_movimiento d ahora (p_id p) (s_user_id s) ''ajuste'' v
                    (Some peso_total) (Some (RegistroManual peso_total)))
               else (Cancelado, d))
            else
              (case ultimo_query d (p_id p) of
                 Some ultimo_ml \<Rightarrow>
                   (RegistroExitoso v (if v - ultimo_ml > 0 then ''entrada'' else ''salida''),
                    insert_movimiento d ahora (p_id p) (s_user_id s)
                      (if v - ultimo_ml > 0 then ''entrada'' else ''salida'') v
                      (Some peso_total) (Some (RegistroManual peso_total)))
               | None \<Rightarrow>
                   (RegistroExitoso v ''entrada'',
                    insert_movimiento d ahora (p_id p) (s_user_id s) ''entrada'' v
                      (Some peso_total) (Some (RegistroManual peso_total)))))"
  using assms
  by (simp add: registrar_peso_def insertar_movimiento_def Let_def split: option.split)

text \<open>
  C3. Whenever a weight registration goes through (product found, density not zero, and
  either a volume that is not negative or a confirmed negative one), exactly one movement
  is appended; its \<^verbatim>\<open>cantidad_ml\<close> is the new reading
  \<open>v = (peso_total - peso_envase) / densidad\<close> itself, whatever the last reading was,
  its \<^verbatim>\<open>peso_bruto\<close> is \<open>peso_total\<close>, and its kind is the one reported.
\<close>

theorem registrar_peso_almacena_lectura:
  assumes prod: "fetch_producto d (f_nombre item) = Some p"
      and dens: "p_densidad p \<noteq> 0"
      and vol: "v = (peso_total - p_peso_envase p) / p_densidad p"
      and goes: "0 \<le> v \<or> ask"
  shows "\<exists>m tipo.
           registrar_peso d s ahora (Some item) (Some peso_total) ask
             = (RegistroExitoso v tipo,
                d\<lparr>movimientos := movimientos d @ [m],
                  seq_movimientos := seq_movimientos d + 1\<rparr>)
         \<and> m_cantidad_ml m = v
         \<and> m_peso_bruto m = Some peso_total
         \<and> m_tipo m = tipo
         \<and> m_producto_id m = p_id p
         \<and> m_user_id m = s_user_id s
         \<and> (tipo = ''entrada'' \<or> tipo = ''salida'' \<or> tipo = ''ajuste'')"
proof -
  let ?r = "registrar_peso d s ahora (Some item) (Some peso_total) ask"
  have "\<exists>tipo. ?r = (RegistroExitoso v tipo,
            insert_movimiento d ahora (p_id p) (s_user_id s) tipo v
              (Some peso_total) (Some (RegistroManual peso_total)))
          \<and> (tipo = ''entrada'' \<or> tipo = ''salida'' \<or> tipo = ''ajuste'')"
    using goes by (auto simp: registrar_peso_found [OF prod dens vol] split: option.split)
  then obtain tipo where r: "?r = (RegistroExitoso v tipo,
            insert_movimiento d ahora (p_id p) (s_user_id s) tipo v
              (Some peso_total) (Some (RegistroManual peso_total)))"
      and t: "tipo = ''entrada'' \<or> tipo = ''salida'' \<or> tipo = ''ajuste''"
    by blast
  from insert_movimiento_row [of d ahora "p_id p" "s_user_id s" tipo v "Some peso_total"
      "Some (RegistroManual peso_total)"]
  obtain m where
    "insert_movimiento d ahora (p_id p) (s_user_id s) tipo v
        (Some peso_total) (Some (RegistroManual peso_total))
       = d\<lparr>movimientos := movimientos d @ [m], seq_movimientos := seq_movimientos d + 1\<rparr>"
    "m_producto_id m = p_id p" "m_user_id m = s_user_id s" "m_tipo m = tipo"
    "m_cantidad_ml m = v" "m_peso_bruto m = Some peso_total"
    by blast
  with r t show ?thesis by auto
qed

text \<open>
  After a reading of 200 ml, a weight of 441 g is a reading of 150 ml: the movement
  stored carries 150, not the difference of 50, and the 441 g.
\<close>

theorem registrar_peso_almacena_lectura_witness:
  "fetch_producto ej_db_lectura (f_nombre (item_sin_datos ej_whisky)) = Some ej_whisky
   \<and> p_densidad ej_whisky \<noteq> 0
   \<and> (0::real) \<le> (441 - p_peso_envase ej_whisky) / p_densidad ej_whisky
   \<and> ultimo_query ej_db_lectura (p_id ej_whisky) = Some 200
   \<and> (\<exists>m tipo.
         registrar_peso ej_db_lectura ej_sesion 10 (Some (item_sin_datos ej_whisky))
             (Some 441) False
           = (RegistroExitoso 150 tipo,
              ej_db_lectura\<lparr>movimientos := movimientos ej_db_lectura @ [m],
                  seq_movimientos := seq_movimientos ej_db_lectura + 1\<rparr>)
         \<and> m_cantidad_ml m = 150 \<and> m_peso_bruto m = Some 441 \<and> m_tipo m = tipo)"
proof -
  have lectura: "ej_db_lectura = ej_db\<lparr>movimientos :=
      [\<lparr>m_id = 1, m_producto_id = 1, m_user_id = 1, m_tipo = ''entrada'',
        m_cantidad_ml = 200, m_peso_bruto = Some 488,
        m_notas = Some (RegistroManual 488), m_fecha = 5\<rparr>], seq_movimientos := 1\<rparr>"
    by (simp add: ej_db_lectura_def app_defs ej_defs Let_def)
  have p2: "fetch_producto ej_db_lectura (f_nombre (item_sin_datos ej_whisky)) = Some ej_whisky"
    by (simp add: lectura fetch_producto_def fetchone_def ej_defs)
  have dens: "p_densidad ej_whisky \<noteq> 0" by (simp add: ej_whisky_def)
  have v2: "(150 :: real) = (441 - p_peso_envase ej_whisky) / p_densidad ej_whisky"
    by (simp add: ej_whisky_def)
  have nn: "(0::real) \<le> (441 - p_peso_envase ej_whisky) / p_densidad ej_whisky"
    by (simp add: ej_whisky_def)
  have u: "ultimo_query ej_db_lectura (p_id ej_whisky) = Some 200"
    by (simp add: lectura ultimo_query_def fetchone_def ej_defs)
  have goes: "(0::real) \<le> 150 \<or> False" by simp
  from registrar_peso_almacena_lectura [OF p2 dens v2 goes, of ej_sesion 10]
  have "\<exists>m tipo.
         registrar_peso ej_db_lectura ej_sesion 10 (Some (item_sin_datos ej_whisky))
             (Some 441) False
           = (RegistroExitoso 150 tipo,
              ej_db_lectura\<lparr>movimientos := movimientos ej_db_lectura @ [m],
                  seq_movimientos := seq_movimientos ej_db_lectura + 1\<rparr>)
         \<and> m_cantidad_ml m = 150 \<and> m_peso_bruto m = Some 441 \<and> m_tipo m = tipo"
    by blast
  with p2 dens nn u show ?thesis by blast
qed

text \<open>
  C6. When the computed volume is negative the outcome hangs on the answer to the
  question. Declined: nothing is written, so the movements and every level stay as they
  were. Confirmed: one movement of kind \<^verbatim>\<open>ajuste\<close> carrying the negative volume is
  appended.
\<close>

theorem registrar_peso_volumen_negativo:
  assumes prod: "fetch_producto d (f_nombre item) = Some p"
      and dens: "p_densidad p \<noteq> 0"
      and vol: "v = (peso_total - p_peso_envase p) / p_densidad p"
      and neg: "v < 0"
  shows "registrar_peso d s ahora (Some item) (Some peso_total) False = (Cancelado, d)
       \<and> movimientos (snd (registrar_peso d s ahora (Some item) (Some peso_total) False))
           = movimientos d
       \<and> total_ml (snd (registrar_peso d s ahora (Some item) (Some peso_total) False)) (p_id p)
           = total_ml d (p_id p)
       \<and> (\<exists>m. registrar_peso d s ahora (Some item) (Some peso_total) True
                 = (RegistroExitoso v ''ajuste'',
                    d\<lparr>movimientos := movimientos d @ [m],
                      seq_movimientos := seq_movimientos d + 1\<rparr>)
              \<and> m_tipo m = ''ajuste'' \<and> m_cantidad_ml m = v \<and> m_producto_id m = p_id p)"
proof -
  have no: "registrar_peso d s ahora (Some item) (Some peso_total) False = (Cancelado, d)"
    using neg by (simp add: registrar_peso_found [OF prod dens vol])
  have yes: "registrar_peso d s ahora (Some item) (Some peso_total) True
               = (RegistroExitoso v ''ajuste'',
                  insert_movimiento d ahora (p_id p) (s_user_id s) ''ajuste'' v
                    (Some peso_total) (Some (RegistroManual peso_total)))"
    using neg by (simp add: registrar_peso_found [OF prod dens vol])
  from insert_movimiento_row [of d ahora "p_id p" "s_user_id s" "''ajuste''" v
      "Some peso_total" "Some (RegistroManual peso_total)"]
  obtain m where
    "insert_movimiento d ahora (p_id p) (s_user_id s) ''ajuste'' v
        (Some peso_total) (Some (RegistroManual peso_total))
       = d\<lparr>movimientos := movimientos d @ [m], seq_movimientos := seq_movimientos d + 1\<rparr>"
    "m_producto_id m = p_id p" "m_tipo m = ''ajuste''" "m_cantidad_ml m = v"
    by blast
  with no yes show ?thesis by auto
qed

text \<open>The whisky weighed at 250 g, less than its empty container of 300 g.\<close>

theorem registrar_peso_volumen_negativo_witness:
  "fetch_producto ej_db (f_nombre (item_sin_datos ej_whisky)) = Some ej_whisky
   \<and> p_densidad ej_whisky \<noteq> 0
   \<and> (250 - p_peso_envase ej_whisky) / p_densidad ej_whisky < 0
   \<and> registrar_peso ej_db ej_sesion 10 (Some (item_sin_datos ej_whisky)) (Some 250) False
       = (Cancelado, ej_db)
   \<and> (\<exists>m. registrar_peso ej_db ej_sesion 10 (Some (item_sin_datos ej_whisky)) (Some 250) True
             = (RegistroExitoso (- 2500 / 47) ''ajuste'',
                ej_db\<lparr>movimientos := movimientos ej_db @ [m],
                  seq_movimientos := seq_movimientos ej_db + 1\<rparr>)
          \<and> m_tipo m = ''ajuste'' \<and> m_cantidad_ml m = - 2500 / 47)"
proof -
  have p1: "fetch_producto ej_db (f_nombre (item_sin_datos ej_whisky)) = Some ej_whisky"
    by (simp add: fetch_producto_def fetchone_def ej_defs)
  have dens: "p_densidad ej_whisky \<noteq> 0" by (simp add: ej_whisky_def)
  have v: "(- 2500 / 47 :: real) = (250 - p_peso_envase ej_whisky) / p_densidad ej_whisky"
    by (simp add: ej_whisky_def)
  have neg: "(- 2500 / 47 :: real) < 0" by simp
  have neg': "(250 - p_peso_envase ej_whisky) / p_densidad ej_whisky < 0"
    by (simp add: ej_whisky_def)
  from registrar_peso_volumen_negativo [OF p1 dens v neg, of ej_sesion 10] p1 dens neg'
  show ?thesis by blast
qed

section \<open>Deleting a location\<close>

lemma filter_neq_remove1:
  "distinct (map f xs) \<Longrightarrow> x \<in> set xs \<Longrightarrow> filter (\<lambda>y. f y \<noteq> f x) xs = remove1 x xs"
proof (induction xs)
  case Nil
  then show ?case by simp
next
  case (Cons a xs)
  show ?case
  proof (cases "a = x")
    case True
    from Cons.prems(1) have "f x \<notin> f ` set xs" using True by simp
    then have "\<forall>y\<in>set xs. f y \<noteq> f x" by (metis imageI)
    then have "filter (\<lambda>y. f y \<noteq> f x) xs = xs"
      by (simp add: filter_id_conv)
    with True show ?thesis by simp
  next
    case False
    with Cons.prems have x: "x \<in> set xs" and d: "distinct (map f xs)" and "f a \<notin> f ` set xs"
      by auto
    then have "f a \<noteq> f x" by auto
    with False Cons.IH [OF d x] show ?thesis by simp
  qed
qed

text \<open>
  C8. A location that a product or a user refers to is not deleted: the operation
  answers with one of its two error messages and leaves the whole store (all tables) as
  it was. For a location that nothing refers to, the deletion (the user answering yes
  to the question) removes from \<^verbatim>\<open>locales\<close> the rows with that id and touches no other
  table; ids being a primary key, that is exactly the one row of the location.
\<close>

theorem eliminar_local_integridad:
  "(((\<exists>p\<in>set (productos d). p_local_id p = i) \<or> (\<exists>u\<in>set (usuarios d). u_local_id u = Some i)) \<longrightarrow>
       snd (eliminar_local d (Some i) ask) = d
       \<and> (fst (eliminar_local d (Some i) ask) = LocalConProductos
          \<or> fst (eliminar_local d (Some i) ask) = LocalConUsuarios))
   \<and> ((\<forall>p\<in>set (productos d). p_local_id p \<noteq> i) \<and> (\<forall>u\<in>set (usuarios d). u_local_id u \<noteq> Some i) \<longrightarrow>
       eliminar_local d (Some i) True
         = (LocalEliminado, d\<lparr>locales := filter (\<lambda>l. l_id l \<noteq> i) (locales d)\<rparr>)
       \<and> (\<forall>l\<in>set (locales d). l_id l = i \<and> distinct (map l_id (locales d)) \<longrightarrow>
             locales (snd (eliminar_local d (Some i) True)) = remove1 l (locales d)))"
proof -
  have np: "(\<exists>p\<in>set (productos d). p_local_id p = i)
              \<longleftrightarrow> 0 < length (filter (\<lambda>p. p_local_id p = i) (productos d))"
    by (simp add: filter_empty_conv)
  have nu: "(\<exists>u\<in>set (usuarios d). u_local_id u = Some i)
              \<longleftrightarrow> 0 < length (filter (\<lambda>u. u_local_id u = Some i) (usuarios d))"
    by (simp add: filter_empty_conv)
  have rejected:
    "(\<exists>p\<in>set (productos d). p_local_id p = i) \<or> (\<exists>u\<in>set (usuarios d). u_local_id u = Some i) \<Longrightarrow>
       snd (eliminar_local d (Some i) ask) = d
       \<and> (fst (eliminar_local d (Some i) ask) = LocalConProductos
          \<or> fst (eliminar_local d (Some i) ask) = LocalConUsuarios)"
    unfolding np nu by (auto simp: eliminar_local_def Let_def)
  have deleted:
    "eliminar_local d (Some i) True
         = (LocalEliminado, d\<lparr>locales := filter (\<lambda>l. l_id l \<noteq> i) (locales d)\<rparr>)"
    if "\<forall>p\<in>set (productos d). p_local_id p \<noteq> i" "\<forall>u\<in>set (usuarios d). u_local_id u \<noteq> Some i"
    using that np nu by (auto simp: eliminar_local_def Let_def)
  have exactly: "locales (snd (eliminar_local d (Some i) True)) = remove1 l (locales d)"
    if "\<forall>p\<in>set (productos d). p_local_id p \<noteq> i" "\<forall>u\<in>set (usuarios d). u_local_id u \<noteq> Some i"
       "l \<in> set (locales d)" "l_id l = i" "distinct (map l_id (locales d))" for l
  proof -
    have "filter (\<lambda>y. l_id y \<noteq> l_id l) (locales d) = remove1 l (locales d)"
      using that(5,3) by (rule filter_neq_remove1)
    with deleted [OF that(1,2)] that(4) show ?thesis by simp
  qed
  from rejected deleted exactly show ?thesis by blast
qed

text \<open>
  In the example store nothing refers to the third location, which is deleted, and the
  first location has products and a user, so it stays.
\<close>

theorem eliminar_local_integridad_witness:
  "\<not> (\<exists>p\<in>set (productos ej_db). p_local_id p = 3)
   \<and> \<not> (\<exists>u\<in>set (usuarios ej_db). u_local_id u = Some 3)
   \<and> ej_locales ! 2 \<in> set (locales ej_db) \<and> l_id (ej_locales ! 2) = 3
   \<and> distinct (map l_id (locales ej_db))
   \<and> eliminar_local ej_db (Some 3) True
       = (LocalEliminado, ej_db\<lparr>locales := [ej_locales ! 0, ej_locales ! 1]\<rparr>)
   \<and> locales (snd (eliminar_local ej_db (Some 3) True)) = remove1 (ej_locales ! 2) (locales ej_db)
   \<and> (\<exists>p\<in>set (productos ej_db). p_local_id p = 1)
   \<and> snd (eliminar_local ej_db (Some 1) True) = ej_db"
proof -
  have h1: "\<forall>p\<in>set (productos ej_db). p_local_id p \<noteq> 3" by (simp add: ej_defs)
  have h2: "\<forall>u\<in>set (usuarios ej_db). u_local_id u \<noteq> Some 3" by (simp add: ej_defs)
  have h3: "distinct (map l_id (locales ej_db))" by (simp add: ej_defs)
  have h4: "ej_locales ! 2 \<in> set (locales ej_db) \<and> l_id (ej_locales ! 2) = 3"
    by (simp add: ej_defs)
  have h5: "\<exists>p\<in>set (productos ej_db). p_local_id p = 1" by (simp add: ej_defs)
  have f: "filter (\<lambda>l. l_id l \<noteq> 3) (locales ej_db) = [ej_locales ! 0, ej_locales ! 1]"
    by (simp add: ej_defs)
  from eliminar_local_integridad [of ej_db 3 True] h1 h2 h3 h4
  have a: "eliminar_local ej_db (Some 3) True
             = (LocalEliminado, ej_db\<lparr>locales := filter (\<lambda>l. l_id l \<noteq> 3) (locales ej_db)\<rparr>)"
    and b: "locales (snd (eliminar_local ej_db (Some 3) True))
             = remove1 (ej_locales ! 2) (locales ej_db)"
    by blast+
  from eliminar_local_integridad [of ej_db 1 True] h5
  have c: "snd (eliminar_local ej_db (Some 1) True) = ej_db" by blast
  from h1 h2 h3 h4 a b c h5 show ?thesis unfolding f by blast
qed

section \<open>The login endpoint\<close>

text \<open>
  C9. For a body that carries both keys, the endpoint answers 200 with the id, name,
  role and location of a user row whose username and password equal the submitted values
  and whose \<^verbatim>\<open>activo\<close> is 1, whenever there is such a row; whenever there is none, it
  answers with one fixed response, 401 and the same message, whichever of the three
  conditions failed.
\<close>

theorem login_credenciales:
  assumes "uf \<noteq> Absent" and "pf \<noteq> Absent"
  shows "((\<exists>r\<in>set (usuarios d).
              Val (u_username r) = uf \<and> Val (u_password r) = pf \<and> u_activo r = 1) \<longrightarrow>
            (\<exists>r\<in>set (usuarios d).
              Val (u_username r) = uf \<and> Val (u_password r) = pf \<and> u_activo r = 1
              \<and> login d \<lparr>j_username = uf, j_password = pf\<rparr>
                  = Respuesta 200 (Usuario (u_id r) (u_nombre r) (u_rol r) (u_local_id r))))
       \<and> (\<not> (\<exists>r\<in>set (usuarios d).
              Val (u_username r) = uf \<and> Val (u_password r) = pf \<and> u_activo r = 1) \<longrightarrow>
            login d \<lparr>j_username = uf, j_password = pf\<rparr>
              = Respuesta 401 (ErrorMsg credenciales_invalidas))"
proof -
  let ?username = "case uf of Null \<Rightarrow> None | Val x \<Rightarrow> Some x"
  let ?password = "case pf of Null \<Rightarrow> None | Val x \<Rightarrow> Some x"
  let ?P = "\<lambda>u. Some (u_username u) = ?username \<and> Some (u_password u) = ?password
                 \<and> u_activo u = 1"
  let ?M = "\<lambda>r. Val (u_username r) = uf \<and> Val (u_password r) = pf \<and> u_activo r = 1"
  have PM: "?P r = ?M r" for r
    using assms by (cases uf; cases pf) auto
  have login_eq: "login d \<lparr>j_username = uf, j_password = pf\<rparr> =
      (case fetchone (filter ?P (usuarios d)) of
         Some usuario \<Rightarrow>
           Respuesta 200
             (Usuario (u_id usuario) (u_nombre usuario) (u_rol usuario) (u_local_id usuario))
       | None \<Rightarrow> Respuesta 401 (ErrorMsg credenciales_invalidas))"
    using assms by (cases uf; cases pf) (simp_all add: login_def subscript_def)
  show ?thesis
  proof (cases "fetchone (filter ?P (usuarios d))")
    case None
    then have "\<forall>r\<in>set (usuarios d). \<not> ?P r" by (simp only: fetchone_filter_None)
    then have "\<not> (\<exists>r\<in>set (usuarios d). ?M r)" using PM by blast
    moreover have "login d \<lparr>j_username = uf, j_password = pf\<rparr>
                     = Respuesta 401 (ErrorMsg credenciales_invalidas)"
      using None login_eq by simp
    ultimately show ?thesis by blast
  next
    case (Some r)
    then have "r \<in> set (usuarios d) \<and> ?P r" by (rule fetchone_filter_Some)
    then have "r \<in> set (usuarios d)" "?M r" using PM by blast+
    moreover have "login d \<lparr>j_username = uf, j_password = pf\<rparr>
                     = Respuesta 200 (Usuario (u_id r) (u_nombre r) (u_rol r) (u_local_id r))"
      using Some login_eq by simp
    ultimately show ?thesis by blast
  qed
qed

text \<open>
  The administrator of the example store logs in; a wrong password, an unknown name and
  the deactivated user with her right password all get the same answer.
\<close>

theorem login_credenciales_witness:
  "Val ''admin'' \<noteq> (Absent :: string json_field)
   \<and> login ej_db \<lparr>j_username = Val ''admin'', j_password = Val ''admin123''\<rparr>
       = Respuesta 200 (Usuario 1 ''Administrador'' ''admin'' (Some 1))
   \<and> login ej_db \<lparr>j_username = Val ''admin'', j_password = Val ''admin''\<rparr>
       = Respuesta 401 (ErrorMsg credenciales_invalidas)
   \<and> login ej_db \<lparr>j_username = Val ''eva'', j_password = Val ''admin123''\<rparr>
       = Respuesta 401 (ErrorMsg credenciales_invalidas)
   \<and> login ej_db \<lparr>j_username = Val ''ana'', j_password = Val ''secreto''\<rparr>
       = Respuesta 401 (ErrorMsg credenciales_invalidas)"
proof -
  have ne: "Val x \<noteq> (Absent :: string json_field)" for x by simp
  have a: "login ej_db \<lparr>j_username = Val ''admin'', j_password = Val ''admin123''\<rparr>
       = Respuesta 200 (Usuario 1 ''Administrador'' ''admin'' (Some 1))"
    using login_credenciales [OF ne ne, of ej_db "''admin''" "''admin123''"]
    by (simp add: ej_defs)
  have b: "login ej_db \<lparr>j_username = Val ''admin'', j_password = Val ''admin''\<rparr>
       = Respuesta 401 (ErrorMsg credenciales_invalidas)"
    using login_credenciales [OF ne ne, of ej_db "''admin''" "''admin''"]
    by (simp add: ej_defs)
  have c: "login ej_db \<lparr>j_username = Val ''eva'', j_password = Val ''admin123''\<rparr>
       = Respuesta 401 (ErrorMsg credenciales_invalidas)"
    using login_credenciales [OF ne ne, of ej_db "''eva''" "''admin123''"]
    by (simp add: ej_defs)
  have e: "login ej_db \<lparr>j_username = Val ''ana'', j_password = Val ''secreto''\<rparr>
       = Respuesta 401 (ErrorMsg credenciales_invalidas)"
    using login_credenciales [OF ne ne, of ej_db "''ana''" "''secreto''"]
    by (simp add: ej_defs)
  from ne a b c e show ?thesis by blast
qed

section \<open>Posting a movement\<close>




section \<open>The level in the inventory list and in the endpoint\<close>

text \<open>What the example stores hold after the bottle of whisky was added and removed.\<close>

lemma ej_db_botella_eq:
  "ej_db_botella =
     ej_db\<lparr>productos :=
             [ej_whisky\<lparr>p_botellas_completas := 1\<rparr>, ej_ron_principal, ej_ron_terraza],
           movimientos :=
             [\<lparr>m_id = 1, m_producto_id = 1, m_user_id = 1, m_tipo = ''entrada'',
               m_cantidad_ml = 1000, m_peso_bruto = None,
               m_notas = Some (Texto ''Botella completa agregada''), m_fecha = 10\<rparr>],
           seq_movimientos := 1\<rparr>"
  by (simp add: ej_db_botella_def app_defs ej_defs Let_def)

lemma ej_db_retirada_eq:
  "ej_db_retirada =
     ej_db\<lparr>movimientos :=
             [\<lparr>m_id = 1, m_producto_id = 1, m_user_id = 1, m_tipo = ''entrada'',
               m_cantidad_ml = 1000, m_peso_bruto = None,
               m_notas = Some (Texto ''Botella completa agregada''), m_fecha = 10\<rparr>,
              \<lparr>m_id = 2, m_producto_id = 1, m_user_id = 1, m_tipo = ''salida'',
               m_cantidad_ml = 1000, m_peso_bruto = None,
               m_notas = Some (Texto ''Botella completa retirada''), m_fecha = 20\<rparr>],
           seq_movimientos := 2\<rparr>"
  by (simp add: ej_db_retirada_def ej_db_botella_eq app_defs ej_defs Let_def)

text \<open>
  C1 at a store the application reaches: one bottle of whisky (1000 ml) added, then
  removed. The history is one \<^verbatim>\<open>entrada\<close> and one \<^verbatim>\<open>salida\<close> of 1000 ml; the signed sum
  is 0, and the inventory list shows 2000 ml for the whisky.
\<close>

theorem actualizar_inventario_suma_sin_signo:
  "map (\<lambda>m. (m_producto_id m, m_tipo m, m_cantidad_ml m)) (movimientos ej_db_retirada)
     = [(1, ''entrada'', 1000), (1, ''salida'', 1000)]
   \<and> spec_current_level ej_db_retirada 1 = 0
   \<and> map_sum id (map (\<lambda>f. (f_nombre f, f_marca f, f_disponible f)))
        (actualizar_inventario ej_db_retirada ej_sesion)
     = Inr [(''Ron'', ''Blanco'', None), (''Ron'', ''Dorado'', None),
            (''Whisky'', ''Etiqueta'', Some 2000)]"
  by (simp add: ej_db_retirada_eq spec_current_level_def spec_signed_def
        actualizar_inventario_def consulta_inventario_def fila_def total_ml_def sql_sum_def
        fetch_capacidad_def fetchone_def ej_defs Let_def)

text \<open>
  C4 at the same store: for the whisky the endpoint computes 0 and the inventory list
  2000; for the two products without movements the endpoint computes 0 where the list
  has no level.
\<close>

theorem get_productos_difiere_de_inventario:
  "(\<exists>ps. get_productos ej_db_retirada None = Respuesta 200 (Productos ps)
         \<and> map (\<lambda>r. (p_id (fst r), snd r)) ps = [(2, 0), (3, 0), (1, 0)])
   \<and> map (\<lambda>r. (p_id (fst r), snd r)) (consulta_inventario ej_db_retirada ej_sesion)
       = [(2, None), (3, None), (1, Some 2000)]"
  by (simp add: ej_db_retirada_eq get_productos_def api_total_ml_def
        consulta_inventario_def total_ml_def sql_sum_def ej_defs)


section \<open>Complete bottles\<close>

text \<open>
  C7 at the example store. The administrator selects the second row of the list, the Ron
  of the Terraza (id 3, 1000 ml), and adds a complete bottle. The lookup by name finds
  the Ron of the Local Principal (id 2, 750 ml): its counter goes to 1, the counter of
  the selected product stays 0, and the movement appended belongs to product 2 with
  750 ml.
\<close>

theorem agregar_botella_completa_otro_producto:
  "seleccion_fila ej_db ej_sesion 1 = Some (item_sin_datos ej_ron_terraza)
   \<and> fst (agregar_botella_completa ej_db ej_sesion 10 (seleccion_fila ej_db ej_sesion 1))
       = BotellaAgregada ''Ron''
   \<and> map (\<lambda>p. (p_id p, p_botellas_completas p))
        (productos (snd (agregar_botella_completa ej_db ej_sesion 10
                           (seleccion_fila ej_db ej_sesion 1))))
       = [(1, 0), (2, 1), (3, 0)]
   \<and> map (\<lambda>m. (m_producto_id m, m_tipo m, m_cantidad_ml m))
        (movimientos (snd (agregar_botella_completa ej_db ej_sesion 10
                             (seleccion_fila ej_db ej_sesion 1))))
       = [(2, ''entrada'', 750)]
   \<and> p_id ej_ron_terraza = 3 \<and> p_capacidad_ml ej_ron_terraza = 1000"
  by (simp add: app_defs ej_defs Let_def)

section \<open>What the two level queries compute\<close>

text \<open>
  The sum of the inventory list against the signed sum of the specification, for a
  history of the three kinds: the list is ahead by twice the quantities of the
  \<^verbatim>\<open>salida\<close> movements of the product.
\<close>

lemma suma_sin_signo:
  assumes "\<forall>m\<in>set ms. m_tipo m = ''entrada'' \<or> m_tipo m = ''salida'' \<or> m_tipo m = ''ajuste''"
  shows "sum_list (map m_cantidad_ml ms)
           = sum_list (map spec_signed ms)
             + 2 * sum_list (map m_cantidad_ml (filter (\<lambda>m. m_tipo m = ''salida'') ms))"
  using assms by (induction ms) (auto simp: spec_signed_def)

lemma total_ml_spec_current_level:
  assumes kinds: "\<forall>m\<in>set (movimientos d).
            m_tipo m = ''entrada'' \<or> m_tipo m = ''salida'' \<or> m_tipo m = ''ajuste''"
      and some: "\<exists>m\<in>set (movimientos d). m_producto_id m = pid"
  shows "total_ml d pid
           = Some (spec_current_level d pid
                   + 2 * sum_list (map m_cantidad_ml
                           (filter (\<lambda>m. m_tipo m = ''salida'')
                              (filter (\<lambda>m. m_producto_id m = pid) (movimientos d)))))"
proof -
  let ?ms = "filter (\<lambda>m. m_producto_id m = pid) (movimientos d)"
  from some have ne: "?ms \<noteq> []" by (simp add: filter_empty_conv)
  from kinds have
    "\<forall>m\<in>set ?ms. m_tipo m = ''entrada'' \<or> m_tipo m = ''salida'' \<or> m_tipo m = ''ajuste''"
    by simp
  from suma_sin_signo [OF this] ne show ?thesis
    by (simp add: total_ml_def sql_sum_def spec_current_level_def)
qed

text \<open>A product without movements has no level in the list and level 0 in the endpoint.\<close>

lemma total_ml_sin_movimientos:
  assumes "\<forall>m\<in>set (movimientos d). m_producto_id m \<noteq> pid"
  shows "total_ml d pid = None" and "api_total_ml d pid = 0"
  using assms by (simp_all add: total_ml_def api_total_ml_def sql_sum_def filter_empty_conv)

text \<open>
  The sum of the endpoint against the signed sum of the specification: behind by twice
  the quantities of the \<^verbatim>\<open>ajuste\<close> movements of the product.
\<close>

lemma suma_con_signo:
  assumes "\<forall>m\<in>set ms. m_tipo m = ''entrada'' \<or> m_tipo m = ''salida'' \<or> m_tipo m = ''ajuste''"
  shows "sum_list (map (\<lambda>m. if m_tipo m = ''entrada'' then m_cantidad_ml m
                              else - m_cantidad_ml m) ms)
           = sum_list (map spec_signed ms)
             - 2 * sum_list (map m_cantidad_ml (filter (\<lambda>m. m_tipo m = ''ajuste'') ms))"
  using assms by (induction ms) (auto simp: spec_signed_def)

lemma api_total_ml_spec_current_level:
  assumes kinds: "\<forall>m\<in>set (movimientos d).
            m_tipo m = ''entrada'' \<or> m_tipo m = ''salida'' \<or> m_tipo m = ''ajuste''"
  shows "api_total_ml d pid
           = spec_current_level d pid
             - 2 * sum_list (map m_cantidad_ml
                     (filter (\<lambda>m. m_tipo m = ''ajuste'')
                        (filter (\<lambda>m. m_producto_id m = pid) (movimientos d))))"
proof -
  let ?ms = "filter (\<lambda>m. m_producto_id m = pid) (movimientos d)"
  from kinds have
    "\<forall>m\<in>set ?ms. m_tipo m = ''entrada'' \<or> m_tipo m = ''salida'' \<or> m_tipo m = ''ajuste''"
    by simp
  from suma_con_signo [OF this] show ?thesis
    by (cases "?ms = []") (simp_all add: api_total_ml_def sql_sum_def spec_current_level_def)
qed

text \<open>
  The state of a row with a level: \<^verbatim>\<open>Bajo\<close> exactly below a fifth of the capacity read
  back for the product, whatever its \<^verbatim>\<open>minimo_inventario\<close>.
\<close>

lemma fila_estado:
  assumes "fetch_capacidad d (p_id p) = Some capacidad"
  shows "\<exists>f. fila d (p, Some tml) = Inr f
            \<and> f_disponible f = Some tml
            \<and> f_estado f = (if tml < capacidad * (2 / 10) then ''Bajo'' else ''OK'')"
  using assms by (simp add: fila_def Let_def)

lemma fetch_capacidad_pk:
  assumes "distinct (map p_id (productos d))" and "p \<in> set (productos d)"
  shows "fetch_capacidad d (p_id p) = Some (p_capacidad_ml p)"
proof -
  have "filter (\<lambda>q. p_id q = p_id p) xs = [p]" if "distinct (map p_id xs)" "p \<in> set xs" for xs
    using that
  proof (induction xs)
    case Nil
    then show ?case by simp
  next
    case (Cons a xs)
    show ?case
    proof (cases "a = p")
      case True
      with Cons.prems(1) have "\<forall>q\<in>set xs. p_id q \<noteq> p_id p" by (metis distinct.simps(2) imageI list.simps(9) set_map)
      then have "filter (\<lambda>q. p_id q = p_id p) xs = []" by (simp add: filter_empty_conv)
      with True show ?thesis by simp
    next
      case False
      with Cons.prems have "p \<in> set xs" "distinct (map p_id xs)" "p_id a \<notin> p_id ` set xs"
        by auto
      then have "p_id a \<noteq> p_id p" by auto
      with Cons.IH \<open>p \<in> set xs\<close> \<open>distinct (map p_id xs)\<close> show ?thesis by simp
    qed
  qed
  from this [OF assms] show ?thesis by (simp add: fetch_capacidad_def fetchone_def)
qed

section \<open>What the bottle operations do to the product they look up\<close>

lemma update_botellas_productos:
  "map p_id (productos (update_botellas d i k)) = map p_id (productos d)"
  "map p_botellas_completas (productos (update_botellas d i k))
     = map (\<lambda>p. if p_id p = i then p_botellas_completas p + k else p_botellas_completas p)
         (productos d)"
  "movimientos (update_botellas d i k) = movimientos d"
  by (simp_all add: update_botellas_def comp_def if_distrib cong: if_cong)

text \<open>
  With \<open>p\<close> the first product that carries the name of the selected row: its counter
  goes up by one and one \<^verbatim>\<open>entrada\<close> of its capacity is appended.
\<close>

lemma agregar_botella_completa_found:
  assumes "fetch_producto d (f_nombre item) = Some p"
  shows "agregar_botella_completa d s ahora (Some item)
           = (BotellaAgregada (f_nombre item),
              insert_movimiento (update_botellas d (p_id p) 1) ahora (p_id p) (s_user_id s)
                ''entrada'' (p_capacidad_ml p) None (Some (Texto ''Botella completa agregada'')))"
  using assms by (simp add: agregar_botella_completa_def Let_def)

text \<open>
  The removal is refused on the count shown in the selected row; otherwise the counter of
  \<open>p\<close> goes down by one and one \<^verbatim>\<open>salida\<close> of its capacity is appended.
\<close>

lemma quitar_botella_completa_sin_botellas:
  assumes "f_botellas item \<le> 0"
  shows "quitar_botella_completa d s ahora (Some item) = (SinBotellas, d)"
  using assms by (simp add: quitar_botella_completa_def)

lemma quitar_botella_completa_found:
  assumes "0 < f_botellas item" and "fetch_producto d (f_nombre item) = Some p"
  shows "quitar_botella_completa d s ahora (Some item)
           = (BotellaRetirada (f_nombre item),
              insert_movimiento (update_botellas d (p_id p) (- 1)) ahora (p_id p) (s_user_id s)
                ''salida'' (p_capacidad_ml p) None (Some (Texto ''Botella completa retirada'')))"
  using assms by (simp add: quitar_botella_completa_def Let_def)

text \<open>The product looked up is the selected one when no other product has its name.\<close>

lemma fetch_producto_nombre_unico:
  assumes "p \<in> set (productos d)"
      and "\<forall>q\<in>set (productos d). p_nombre q = p_nombre p \<longrightarrow> q = p"
  shows "fetch_producto d (p_nombre p) = Some p"
proof -
  from assms(1) have "filter (\<lambda>q. p_nombre q = p_nombre p) (productos d) \<noteq> []"
    by (auto simp: filter_empty_conv)
  then obtain q rest where qr: "filter (\<lambda>q. p_nombre q = p_nombre p) (productos d) = q # rest"
    by (cases "filter (\<lambda>q. p_nombre q = p_nombre p) (productos d)") auto
  then have "q \<in> set (filter (\<lambda>q. p_nombre q = p_nombre p) (productos d))" by simp
  with assms(2) have "q = p" by simp
  with qr show ?thesis by (simp add: fetch_producto_def fetchone_def)
qed

section \<open>The other answers of the endpoint\<close>

lemma login_KeyError:
  "login d \<lparr>j_username = Absent, j_password = pf\<rparr> = Excepcion (KeyError ''username'')"
  "uf \<noteq> Absent \<Longrightarrow>
     login d \<lparr>j_username = uf, j_password = Absent\<rparr> = Excepcion (KeyError ''password'')"
  by (cases uf; simp add: login_def subscript_def)+

lemma movimientos_POST_no_201_sin_cambio:
  assumes "fst (movimientos_POST d ahora data) \<noteq> Respuesta 201 (Status ''success'')"
  shows "snd (movimientos_POST d ahora data) = d"
  using assms
  by (auto simp: movimientos_POST_def split: sum.splits)

end
